theory Spec2Isabelle
  imports Main
begin

section \<open>The policy editor initialiser: \<^verbatim>\<open>static/js/policy_tinymce_init.js\<close>\<close>

text \<open>
  The script registers one listener for the document's \<open>DOMContentLoaded\<close> event. The
  listener tests \<open>typeof tinymce === "undefined"\<close>, returns if so, and otherwise
  evaluates \<open>tinymce.init({...})\<close> on an object literal of eight fields.
\<close>

subsection \<open>The configuration object\<close>

text \<open>The object literal of lines 9 to 21, one record field per property.\<close>

record config =
  selector :: string
  menubar :: string
  plugins :: string
  toolbar :: string
  toolbar_mode :: string
  height :: int
  branding :: bool
  convert_urls :: bool

definition policy_config :: config where
  "policy_config =
     \<lparr> selector = ''textarea.tinymce-policy'',
       menubar = ''file edit view insert format tools table help'',
       plugins = ''advlist autolink lists link charmap searchreplace visualblocks visualchars fullscreen table code wordcount'',
       toolbar = ''undo redo | blocks | bold italic underline | alignleft aligncenter alignright alignjustify | bullist numlist outdent indent | link table | removeformat | fullscreen code'',
       toolbar_mode = ''sliding'',
       height = 420,
       branding = False,
       convert_urls = False \<rparr>"

subsection \<open>The environment\<close>

text \<open>
  Errors a run of the listener can end with: the two the language raises itself, and
  whatever the library's \<open>init\<close> throws.
\<close>

datatype js_error = ReferenceError | TypeError | Library_exception

text \<open>
  Objects live in a store and are passed by reference. Only configuration objects are
  tracked: the store is the list of the objects allocated so far, and the address of an
  object is its index. A new object goes to the end of the list.
\<close>

type_synonym store = "config list"

text \<open>
  The \<open>init\<close> member of the value bound to \<open>tinymce\<close>. A function receives the address
  of its argument and the store; it returns the store it leaves behind, and the error
  it throws if it throws.
\<close>

datatype init_member =
    Init_missing
  | Init_not_callable
  | Init_function "nat \<Rightarrow> store \<Rightarrow> js_error option \<times> store"

text \<open>What the global name \<open>tinymce\<close> is bound to when the listener runs.\<close>

datatype tinymce_binding =
    Undeclared
  | Undefined_value
  | Null_value
  | Object_value init_member

text \<open>
  \<open>typeof\<close> applied to the name: an undeclared name gives \<open>"undefined"\<close> without an
  error, and \<open>null\<close> gives \<open>"object"\<close>.
\<close>

fun typeof_tinymce :: "tinymce_binding \<Rightarrow> string" where
  "typeof_tinymce Undeclared = ''undefined''"
| "typeof_tinymce Undefined_value = ''undefined''"
| "typeof_tinymce Null_value = ''object''"
| "typeof_tinymce (Object_value m) = ''object''"

text \<open>
  Evaluating the member expression \<open>tinymce.init\<close>: reading an undeclared name is a
  ReferenceError, and a property of \<open>undefined\<close> or \<open>null\<close> is a TypeError.
\<close>

fun tinymce_init :: "tinymce_binding \<Rightarrow> js_error + init_member" where
  "tinymce_init Undeclared = Inl ReferenceError"
| "tinymce_init Undefined_value = Inl TypeError"
| "tinymce_init Null_value = Inl TypeError"
| "tinymce_init (Object_value m) = Inr m"

text \<open>
  The observable state: the store, and the record of the calls of the initialisation
  entry point made so far, each with the value its argument had when the call was made.
\<close>

record world =
  heap :: store
  init_calls :: "config list"

definition world0 :: world where
  "world0 = \<lparr> heap = [], init_calls = [] \<rparr>"

subsection \<open>The listener\<close>

text \<open>
  One run of the listener (lines 4 to 22). The result is the error that escapes, if
  one does, and the state left behind. The call \<open>tinymce.init({...})\<close> evaluates
  \<open>tinymce.init\<close> first, then the argument (the literal is allocated), then calls the
  value if it is callable and raises a TypeError if not. Nothing follows the call.
\<close>

definition handler :: "tinymce_binding \<Rightarrow> world \<Rightarrow> js_error option \<times> world" where
  "handler tinymce w =
     (if typeof_tinymce tinymce = ''undefined'' then (None, w)
      else
        (case tinymce_init tinymce of
           Inl e \<Rightarrow> (Some e, w)
         | Inr m \<Rightarrow>
             (let a = length (heap w);
                  w1 = w\<lparr>heap := heap w @ [policy_config]\<rparr>
              in case m of
                   Init_function f \<Rightarrow>
                     (let w2 = w1\<lparr>init_calls := init_calls w1 @ [heap w1 ! a]\<rparr>;
                          r = f a (heap w2)
                      in (fst r, w2\<lparr>heap := snd r\<rparr>))
                 | _ \<Rightarrow> (Some TypeError, w1))))"

text \<open>
  The signal firing several times: each firing runs the listener once, in the
  environment of that moment. An error escaping one run is reported by the page and
  does not stop later firings, so the outcomes are collected.
\<close>

fun fire_all :: "tinymce_binding list \<Rightarrow> world \<Rightarrow> js_error option list \<times> world" where
  "fire_all [] w = ([], w)"
| "fire_all (b # bs) w =
     (let r = handler b w; rs = fire_all bs (snd r)
      in (fst r # fst rs, snd rs))"

text \<open>A library whose \<open>init\<close> returns normally and leaves the store alone.\<close>

definition stub_init :: "nat \<Rightarrow> store \<Rightarrow> js_error option \<times> store" where
  "stub_init a h = (None, h)"

definition stub_library :: tinymce_binding where
  "stub_library = Object_value (Init_function stub_init)"

text \<open>Whether the value bound to \<open>tinymce\<close> is an object whose \<open>init\<close> can be called.\<close>

fun callable_init :: "tinymce_binding \<Rightarrow> bool" where
  "callable_init (Object_value (Init_function f)) = True"
| "callable_init _ = False"

text \<open>A library whose \<open>init\<close> throws.\<close>

definition throwing_init :: "nat \<Rightarrow> store \<Rightarrow> js_error option \<times> store" where
  "throwing_init a h = (Some Library_exception, h)"

text \<open>
  The reference for \<open>n\<close> calls of the entry point: each function of the list is applied
  once, in order, to the address of a freshly allocated literal, in the store the call
  before it left behind. The outcomes are collected.
\<close>

fun call_each ::
  "(nat \<Rightarrow> store \<Rightarrow> js_error option \<times> store) list \<Rightarrow> store \<Rightarrow> js_error option list \<times> store"
where
  "call_each [] h = ([], h)"
| "call_each (f # fs) h =
     (let r = f (length h) (h @ [policy_config]); rs = call_each fs (snd r)
      in (fst r # fst rs, snd rs))"

text \<open>The configurations one run of the listener passes to the entry point.\<close>

definition passed :: "tinymce_binding \<Rightarrow> world \<Rightarrow> config list" where
  "passed b w = drop (length (init_calls w)) (init_calls (snd (handler b w)))"

text \<open>
  The two states of the specification's model, read off the state: the initialiser is
  Initialized once the entry point has been called.
\<close>

datatype init_state = Not_Initialized | Initialized

definition state_of :: "world \<Rightarrow> init_state" where
  "state_of w = (if init_calls w = [] then Not_Initialized else Initialized)"

section \<open>Properties\<close>

subsection \<open>General facts about one run\<close>

lemma handler_function:
  "handler (Object_value (Init_function f)) w =
     (fst (f (length (heap w)) (heap w @ [policy_config])),
      \<lparr> heap = snd (f (length (heap w)) (heap w @ [policy_config])),
        init_calls = init_calls w @ [policy_config] \<rparr>)"
  by (simp add: handler_def Let_def)

lemma handler_calls:
  "init_calls (snd (handler b w)) =
     init_calls w @ (if callable_init b then [policy_config] else [])"
proof (cases b)
  case (Object_value m)
  then show ?thesis
    by (cases m) (simp_all add: handler_def Let_def)
qed (simp_all add: handler_def)

lemma fire_all_calls:
  "init_calls (snd (fire_all bs w)) =
     init_calls w @ replicate (length (filter callable_init bs)) policy_config"
proof (induction bs arbitrary: w)
  case Nil
  show ?case by simp
next
  case (Cons b bs)
  show ?case
    by (simp add: Let_def Cons.IH handler_calls replicate_app_Cons_same)
qed

lemma stub_library_callable: "callable_init stub_library"
  by (simp add: stub_library_def)

subsection \<open>The library absent\<close>

text \<open>
  C2: when \<open>typeof tinymce\<close> is \<open>"undefined"\<close> the listener returns at once: no error,
  and the state is exactly the state it started in, so the initialisation entry point
  has not been called and nothing else has happened.
\<close>

theorem absent_no_call_no_effect:
  "typeof_tinymce b = ''undefined'' \<Longrightarrow>
     handler b w = (None, w) \<and> init_calls (snd (handler b w)) = init_calls w"
  by (simp add: handler_def)

theorem absent_no_call_no_effect_witness:
  "typeof_tinymce Undeclared = ''undefined'' \<and> handler Undeclared world0 = (None, world0)
   \<and> init_calls (snd (handler Undeclared world0)) = init_calls world0"
  using absent_no_call_no_effect [of Undeclared world0] by simp

text \<open>
  C3: when \<open>typeof tinymce\<close> is \<open>"undefined"\<close> a run of the listener ends normally: it
  yields a result, and that result carries no error.
\<close>

theorem absent_no_exception:
  "typeof_tinymce b = ''undefined'' \<Longrightarrow> \<exists>w'. handler b w = (None, w')"
  by (simp add: handler_def)

theorem absent_no_exception_witness:
  "typeof_tinymce Undefined_value = ''undefined''
   \<and> (\<exists>w'. handler Undefined_value world0 = (None, w'))"
  using absent_no_exception [of Undefined_value world0] by simp

subsection \<open>The library present\<close>

lemma tinymce_init_Inr: "tinymce_init b = Inr m \<Longrightarrow> b = Object_value m"
  by (cases b) simp_all

lemma fire_all_append:
  "fire_all (bs @ cs) w =
     (fst (fire_all bs w) @ fst (fire_all cs (snd (fire_all bs w))),
      snd (fire_all cs (snd (fire_all bs w))))"
  by (induction bs arbitrary: w) (simp_all add: Let_def)

lemma fire_all_call_each:
  "map tinymce_init bs = map (\<lambda>f. Inr (Init_function f)) fs \<Longrightarrow>
     fst (fire_all bs w) = fst (call_each fs (heap w))
     \<and> heap (snd (fire_all bs w)) = snd (call_each fs (heap w))"
proof (induction bs arbitrary: fs w)
  case Nil
  then show ?case by simp
next
  case (Cons b bs)
  from Cons.prems obtain f fs' where fs: "fs = f # fs'"
    and b: "tinymce_init b = Inr (Init_function f)"
    and rest: "map tinymce_init bs = map (\<lambda>f. Inr (Init_function f)) fs'"
    by (cases fs) auto
  from b have b': "b = Object_value (Init_function f)"
    by (rule tinymce_init_Inr)
  from Cons.IH [OF rest, of "snd (handler b w)"] show ?case
    by (simp add: fs b' handler_function Let_def)
qed

text \<open>
  C1, as amended: when \<open>typeof tinymce\<close> is not \<open>"undefined"\<close> and \<open>tinymce.init\<close> is a
  callable function \<open>f\<close>, one run of the listener applies \<open>f\<close> exactly once: the error
  and the store of the run are those of the one application of \<open>f\<close> to the address of
  the freshly allocated literal, exactly one call is added to the record, and the
  object handed over has selector \<open>textarea.tinymce-policy\<close>, height 420 and the plugin
  list of the source.
\<close>

theorem callable_one_call:
  "typeof_tinymce b \<noteq> ''undefined'' \<Longrightarrow> tinymce_init b = Inr (Init_function f) \<Longrightarrow>
   handler b w = (r, w') \<Longrightarrow>
     (\<exists>a h. a = length (heap w) \<and> h = heap w @ [policy_config]
        \<and> (r, heap w') = f a h
        \<and> init_calls w' = init_calls w @ [h ! a]
        \<and> selector (h ! a) = ''textarea.tinymce-policy''
        \<and> height (h ! a) = 420
        \<and> plugins (h ! a) = ''advlist autolink lists link charmap searchreplace visualblocks visualchars fullscreen table code wordcount'')"
proof -
  assume f: "tinymce_init b = Inr (Init_function f)" and run: "handler b w = (r, w')"
  from f have "b = Object_value (Init_function f)"
    by (rule tinymce_init_Inr)
  with run show ?thesis
    by (auto simp add: handler_function policy_config_def)
qed

theorem callable_one_call_witness:
  "typeof_tinymce (Object_value (Init_function throwing_init)) \<noteq> ''undefined''
   \<and> tinymce_init (Object_value (Init_function throwing_init)) = Inr (Init_function throwing_init)
   \<and> handler (Object_value (Init_function throwing_init)) world0 =
       (Some Library_exception, \<lparr> heap = [policy_config], init_calls = [policy_config] \<rparr>)
   \<and> (Some Library_exception, [policy_config]) = throwing_init 0 [policy_config]
   \<and> height ([policy_config] ! 0) = 420"
proof -
  let ?b = "Object_value (Init_function throwing_init)"
  let ?w' = "\<lparr> heap = [policy_config], init_calls = [policy_config] \<rparr>"
  have h1: "typeof_tinymce ?b \<noteq> ''undefined''" by simp
  have h2: "tinymce_init ?b = Inr (Init_function throwing_init)" by simp
  have h3: "handler ?b world0 = (Some Library_exception, ?w')"
    by (simp add: handler_function world0_def throwing_init_def)
  from callable_one_call [OF h1 h2 h3] h1 h2 h3 show ?thesis
    by (simp add: world0_def)
qed

text \<open>
  C1, as stated, fails when the name is defined but is not the library: with \<open>null\<close>
  the guard is passed, reading \<open>init\<close> raises a TypeError and no call is made.
\<close>

theorem present_null_no_call:
  "typeof_tinymce Null_value \<noteq> ''undefined''
   \<and> init_calls (snd (handler Null_value world0)) = []
   \<and> fst (handler Null_value world0) = Some TypeError"
  by (simp add: handler_def world0_def)

text \<open>
  C4, as amended: when the signal fires \<open>n\<close> times and each time \<open>typeof tinymce\<close> is
  not \<open>"undefined"\<close> and \<open>tinymce.init\<close> is a callable function, the listener makes
  exactly \<open>n\<close> calls, one per firing and in the order of the firings: the outcomes and
  the final store are those of applying the \<open>n\<close> functions once each, every one to a
  fresh literal, and \<open>n\<close> calls with the literal are added to the record. Nothing
  deduplicates them.
\<close>

theorem calls_equal_firings:
  "\<forall>b \<in> set bs. typeof_tinymce b \<noteq> ''undefined'' \<Longrightarrow>
   map tinymce_init bs = map (\<lambda>f. Inr (Init_function f)) fs \<Longrightarrow>
     length fs = length bs
     \<and> fst (fire_all bs w) = fst (call_each fs (heap w))
     \<and> heap (snd (fire_all bs w)) = snd (call_each fs (heap w))
     \<and> init_calls (snd (fire_all bs w)) = init_calls w @ replicate (length bs) policy_config
     \<and> length (init_calls (snd (fire_all bs w))) = length (init_calls w) + length bs"
proof -
  assume m: "map tinymce_init bs = map (\<lambda>f. Inr (Init_function f)) fs"
  have len: "length fs = length bs"
    using map_eq_imp_length_eq [OF m] by simp
  have "callable_init b" if "b \<in> set bs" for b
  proof -
    from that m have "tinymce_init b \<in> set (map (\<lambda>f. Inr (Init_function f)) fs)"
      by (metis image_eqI set_map)
    then obtain f where "tinymce_init b = Inr (Init_function f)" by auto
    then have "b = Object_value (Init_function f)" by (rule tinymce_init_Inr)
    then show ?thesis by simp
  qed
  then have all: "filter callable_init bs = bs" by simp
  show ?thesis
    using fire_all_call_each [OF m, of w] len
    by (simp add: fire_all_calls all)
qed

theorem calls_equal_firings_witness:
  "typeof_tinymce (Object_value (Init_function throwing_init)) \<noteq> ''undefined''
   \<and> typeof_tinymce stub_library \<noteq> ''undefined''
   \<and> map tinymce_init [Object_value (Init_function throwing_init), stub_library]
        = map (\<lambda>f. Inr (Init_function f)) [throwing_init, stub_init]
   \<and> fst (fire_all [Object_value (Init_function throwing_init), stub_library] world0)
        = [Some Library_exception, None]
   \<and> heap (snd (fire_all [Object_value (Init_function throwing_init), stub_library] world0))
        = [policy_config, policy_config]
   \<and> length (init_calls
        (snd (fire_all [Object_value (Init_function throwing_init), stub_library] world0))) = 2"
proof -
  let ?bs = "[Object_value (Init_function throwing_init), stub_library]"
  let ?fs = "[throwing_init, stub_init]"
  have h1: "\<forall>b \<in> set ?bs. typeof_tinymce b \<noteq> ''undefined''"
    by (simp add: stub_library_def)
  have h2: "map tinymce_init ?bs = map (\<lambda>f. Inr (Init_function f)) ?fs"
    by (simp add: stub_library_def)
  have c: "call_each ?fs [] = ([Some Library_exception, None], [policy_config, policy_config])"
    by (simp add: throwing_init_def stub_init_def Let_def)
  from calls_equal_firings [OF h1 h2, of world0] h1 h2 c show ?thesis
    by (simp add: world0_def del: fire_all.simps)
qed

text \<open>
  C4, as stated, fails when the name is defined but is not the library: two firings
  with \<open>null\<close> pass the guard twice and make no call.
\<close>

theorem null_two_firings_no_call:
  "typeof_tinymce Null_value \<noteq> ''undefined''
   \<and> length (init_calls (snd (fire_all [Null_value, Null_value] world0))) \<noteq> 2
   \<and> fst (fire_all [Null_value, Null_value] world0) = [Some TypeError, Some TypeError]"
  by (simp add: handler_def world0_def Let_def)

text \<open>
  C5, as amended: at a firing of the signal at which \<open>typeof tinymce\<close> is not
  \<open>"undefined"\<close> and \<open>tinymce.init\<close> is a callable function \<open>f\<close>, whatever firings came
  before it in the page lifecycle, the listener applies \<open>f\<close> exactly once, to the address
  of a fresh literal of the source in the store the earlier firings left, and adds that
  one call to the record; and the record of a lifecycle holds one call for each firing
  with a callable \<open>init\<close> and no other.
\<close>

theorem one_call_per_callable_firing:
  "typeof_tinymce b \<noteq> ''undefined'' \<Longrightarrow> tinymce_init b = Inr (Init_function f) \<Longrightarrow>
   w = snd (fire_all bs world0) \<Longrightarrow>
     fire_all (bs @ [b]) world0 =
       (fst (fire_all bs world0) @ [fst (f (length (heap w)) (heap w @ [policy_config]))],
        \<lparr> heap = snd (f (length (heap w)) (heap w @ [policy_config])),
          init_calls = init_calls w @ [policy_config] \<rparr>)
     \<and> (heap w @ [policy_config]) ! length (heap w) = policy_config
     \<and> init_calls w = replicate (length (filter callable_init bs)) policy_config"
proof -
  assume f: "tinymce_init b = Inr (Init_function f)" and w: "w = snd (fire_all bs world0)"
  from f have b: "b = Object_value (Init_function f)"
    by (rule tinymce_init_Inr)
  have "init_calls w = replicate (length (filter callable_init bs)) policy_config"
    by (simp add: w fire_all_calls world0_def)
  then show ?thesis
    by (simp add: fire_all_append b w handler_function Let_def)
qed

theorem one_call_per_callable_firing_witness:
  "typeof_tinymce (Object_value (Init_function throwing_init)) \<noteq> ''undefined''
   \<and> tinymce_init (Object_value (Init_function throwing_init)) = Inr (Init_function throwing_init)
   \<and> fire_all ([Null_value, stub_library] @ [Object_value (Init_function throwing_init)]) world0 =
       ([Some TypeError, None, Some Library_exception],
        \<lparr> heap = [policy_config, policy_config], init_calls = [policy_config, policy_config] \<rparr>)"
proof -
  let ?b = "Object_value (Init_function throwing_init)"
  let ?bs = "[Null_value, stub_library]"
  have h1: "typeof_tinymce ?b \<noteq> ''undefined''" by simp
  have h2: "tinymce_init ?b = Inr (Init_function throwing_init)" by simp
  have e: "fire_all ?bs world0 =
      ([Some TypeError, None], \<lparr> heap = [policy_config], init_calls = [policy_config] \<rparr>)"
    by (simp add: handler_def stub_library_def stub_init_def world0_def Let_def)
  from one_call_per_callable_firing [OF h1 h2 refl, of ?bs] h1 h2 show ?thesis
    by (simp only: e) (simp add: throwing_init_def)
qed

text \<open>
  C5, as stated, fails: the number of calls in a page lifecycle is not capped at one.
  Two firings with the library present make two calls.
\<close>

theorem two_firings_two_calls:
  "\<not> length (init_calls (snd (fire_all [stub_library, stub_library] world0))) \<le> 1"
  by (simp add: handler_def stub_library_def stub_init_def world0_def Let_def)

subsection \<open>The configuration passed\<close>

lemma passed_eq: "passed b w = (if callable_init b then [policy_config] else [])"
  by (simp add: passed_def handler_calls)

text \<open>
  C6: any configuration passed by any run of the listener equals any configuration
  passed by any other run, whatever the environments and states of the two runs: both
  are the literal of the source.
\<close>

theorem config_same_every_run:
  "c1 \<in> set (passed b1 w1) \<Longrightarrow> c2 \<in> set (passed b2 w2) \<Longrightarrow>
     c1 = c2 \<and> c1 = policy_config"
  by (simp add: passed_eq split: if_splits)

theorem config_same_every_run_witness:
  "hd (passed stub_library world0) \<in> set (passed stub_library world0)
   \<and> hd (passed (Object_value (Init_function throwing_init))
            (snd (handler stub_library world0)))
       \<in> set (passed (Object_value (Init_function throwing_init))
            (snd (handler stub_library world0)))
   \<and> hd (passed stub_library world0) =
       hd (passed (Object_value (Init_function throwing_init))
            (snd (handler stub_library world0)))"
proof -
  let ?b2 = "Object_value (Init_function throwing_init)"
  let ?w2 = "snd (handler stub_library world0)"
  have h1: "hd (passed stub_library world0) \<in> set (passed stub_library world0)"
    by (simp add: passed_eq stub_library_callable)
  have h2: "hd (passed ?b2 ?w2) \<in> set (passed ?b2 ?w2)"
    by (simp add: passed_eq)
  from config_same_every_run [OF h1 h2] h1 h2 show ?thesis by blast
qed

text \<open>
  C7: when \<open>init\<close> is callable, the listener allocates the literal once, at a fresh
  address, leaving the objects already in the store as they were; the entry point is
  called on that address in that store, where every one of the eight fields has the
  value of the source; and the store after the run is the store the entry point
  returned, so the listener writes nothing after the call. If the library left the
  object alone, it still holds the literal when the listener returns.
\<close>

theorem config_never_mutated:
  "handler (Object_value (Init_function f)) w = (r, w') \<Longrightarrow>
     (\<exists>a h. a = length (heap w) \<and> h = heap w @ [policy_config]
        \<and> take a h = heap w
        \<and> (r, heap w') = f a h
        \<and> last (init_calls w') = h ! a
        \<and> selector (h ! a) = ''textarea.tinymce-policy''
        \<and> menubar (h ! a) = ''file edit view insert format tools table help''
        \<and> plugins (h ! a) = ''advlist autolink lists link charmap searchreplace visualblocks visualchars fullscreen table code wordcount''
        \<and> toolbar (h ! a) = ''undo redo | blocks | bold italic underline | alignleft aligncenter alignright alignjustify | bullist numlist outdent indent | link table | removeformat | fullscreen code''
        \<and> toolbar_mode (h ! a) = ''sliding''
        \<and> height (h ! a) = 420
        \<and> branding (h ! a) = False
        \<and> convert_urls (h ! a) = False
        \<and> (snd (f a h) ! a = h ! a \<longrightarrow> heap w' ! a = policy_config))"
  by (auto simp add: handler_function policy_config_def)

theorem config_never_mutated_witness:
  "handler (Object_value (Init_function stub_init)) world0 =
     (None, \<lparr> heap = [policy_config], init_calls = [policy_config] \<rparr>)
   \<and> heap \<lparr> heap = [policy_config], init_calls = [policy_config] \<rparr> ! 0 = policy_config
   \<and> selector (heap \<lparr> heap = [policy_config], init_calls = [policy_config] \<rparr> ! 0)
       = ''textarea.tinymce-policy''"
proof -
  let ?w' = "\<lparr> heap = [policy_config], init_calls = [policy_config] \<rparr>"
  have h: "handler (Object_value (Init_function stub_init)) world0 = (None, ?w')"
    by (simp add: handler_function world0_def stub_init_def)
  from config_never_mutated [OF h] h show ?thesis
    by (simp add: world0_def stub_init_def)
qed

text \<open>
  C10: every configuration passed to the entry point in a page lifecycle, however
  often the signal fires and whatever \<open>tinymce\<close> is bound to each time, has \<open>branding\<close>
  false and \<open>convert_urls\<close> false.
\<close>

theorem branding_convert_urls_false:
  "c \<in> set (init_calls (snd (fire_all bs world0))) \<Longrightarrow>
     branding c = False \<and> convert_urls c = False"
  by (simp add: fire_all_calls world0_def policy_config_def)

theorem branding_convert_urls_false_witness:
  "policy_config \<in> set (init_calls (snd (fire_all [stub_library] world0)))
   \<and> branding policy_config = False \<and> convert_urls policy_config = False"
proof -
  have h: "policy_config \<in> set (init_calls (snd (fire_all [stub_library] world0)))"
    by (simp add: fire_all_calls stub_library_callable del: fire_all.simps)
  from branding_convert_urls_false [OF h] h show ?thesis by blast
qed

subsection \<open>The guard\<close>

text \<open>
  C9: the guard tests only that the name is defined. With \<open>null\<close>, with an object that
  has no \<open>init\<close>, and with an object whose \<open>init\<close> is not callable, \<open>typeof\<close> is not
  \<open>"undefined"\<close>, the listener goes past the guard, and a TypeError escapes the run
  without the entry point having been called.
\<close>

theorem defined_not_library_error_escapes:
  "typeof_tinymce Null_value \<noteq> ''undefined''
   \<and> handler Null_value w = (Some TypeError, w)
   \<and> typeof_tinymce (Object_value Init_missing) \<noteq> ''undefined''
   \<and> fst (handler (Object_value Init_missing) w) = Some TypeError
   \<and> init_calls (snd (handler (Object_value Init_missing) w)) = init_calls w
   \<and> typeof_tinymce (Object_value Init_not_callable) \<noteq> ''undefined''
   \<and> fst (handler (Object_value Init_not_callable) w) = Some TypeError
   \<and> init_calls (snd (handler (Object_value Init_not_callable) w)) = init_calls w"
  by (simp add: handler_def Let_def)

subsection \<open>The two-state model\<close>

lemma state_of_fire_all:
  "state_of (snd (fire_all bs w)) =
     (if state_of w = Initialized \<or> (\<exists>b \<in> set bs. callable_init b)
      then Initialized else Not_Initialized)"
  by (auto simp add: state_of_def fire_all_calls filter_empty_conv)

lemma callable_typeof: "callable_init b \<Longrightarrow> typeof_tinymce b \<noteq> ''undefined''"
  by (cases b) simp_all

text \<open>
  C8: the model has the two states Not Initialized and Initialized. A page starts Not
  Initialized and stays in its state while the signal has not fired. A sequence of
  firings takes Not Initialized to Initialized only if at one of them \<open>tinymce\<close> was
  defined (and indeed had a callable \<open>init\<close>). From Initialized every sequence of
  firings leads to Initialized.
\<close>

theorem two_state_model:
  "(UNIV :: init_state set) = {Not_Initialized, Initialized}
   \<and> Not_Initialized \<noteq> Initialized
   \<and> state_of world0 = Not_Initialized
   \<and> state_of (snd (fire_all [] w)) = state_of w
   \<and> (state_of w = Not_Initialized \<and> state_of (snd (fire_all bs w)) = Initialized
        \<longrightarrow> (\<exists>b \<in> set bs. typeof_tinymce b \<noteq> ''undefined'' \<and> callable_init b))
   \<and> (state_of w = Initialized \<longrightarrow> state_of (snd (fire_all bs w)) = Initialized)"
proof -
  have "(UNIV :: init_state set) = {Not_Initialized, Initialized}"
    using init_state.exhaust by auto
  moreover have "state_of world0 = Not_Initialized"
    by (simp add: state_of_def world0_def)
  moreover have "state_of w = Not_Initialized \<and> state_of (snd (fire_all bs w)) = Initialized
        \<longrightarrow> (\<exists>b \<in> set bs. typeof_tinymce b \<noteq> ''undefined'' \<and> callable_init b)"
    using callable_typeof by (auto simp add: state_of_fire_all split: if_splits)
  moreover have "state_of w = Initialized \<longrightarrow> state_of (snd (fire_all bs w)) = Initialized"
    by (simp add: state_of_fire_all)
  ultimately show ?thesis by simp
qed

theorem two_state_model_witness:
  "state_of world0 = Not_Initialized
   \<and> state_of (snd (fire_all [stub_library] world0)) = Initialized
   \<and> typeof_tinymce stub_library \<noteq> ''undefined'' \<and> callable_init stub_library
   \<and> state_of (snd (fire_all [Undeclared, Null_value] (snd (fire_all [stub_library] world0))))
       = Initialized"
proof -
  let ?w1 = "snd (fire_all [stub_library] world0)"
  have a: "state_of world0 = Not_Initialized"
    by (simp add: state_of_def world0_def)
  have b: "state_of ?w1 = Initialized"
    by (simp add: state_of_fire_all stub_library_callable del: fire_all.simps)
  from two_state_model [of world0 "[stub_library]"] a b
  have c: "typeof_tinymce stub_library \<noteq> ''undefined'' \<and> callable_init stub_library"
    by simp
  from two_state_model [of ?w1 "[Undeclared, Null_value]"] b
  have d: "state_of (snd (fire_all [Undeclared, Null_value] ?w1)) = Initialized"
    by blast
  from a b c d show ?thesis by blast
qed

end
